theory Spec2Isabelle
  imports Complex_Main "HOL-Library.Word"
begin

section \<open>FunctionDateOrDateTimeToSomething.h: the data the header works on\<close>

text \<open>
  The header \<^verbatim>\<open>dbms/src/Functions/FunctionDateOrDateTimeToSomething.h\<close> defines the
  adapter \<^verbatim>\<open>WithDateTime64Converter\<close> and the function template
  \<^verbatim>\<open>FunctionDateOrDateTimeToSomething<ToDataType, Transform>\<close> with its three methods
  \<^verbatim>\<open>getReturnTypeImpl\<close>, \<^verbatim>\<open>executeImpl\<close> and \<^verbatim>\<open>getMonotonicityForRange\<close>.
  Exceptions are values: a method that can throw returns \<open>Exception + 'a\<close>.
\<close>

subsection \<open>Exceptions\<close>

datatype ErrorCode = ILLEGAL_TYPE_OF_ARGUMENT | NUMBER_OF_ARGUMENTS_DOESNT_MATCH

datatype Exception = Exception (message: string) (code: ErrorCode)

subsection \<open>Time zones\<close>

text \<open>
  Modelled from the spec: \<^verbatim>\<open>DateLUTImpl\<close> (the time zone handle of the calendar library)
  is an opaque identifier that transforms receive and never change; it is identified here
  with the name of its zone, the empty name being the default/empty time zone of a batch.
\<close>

type_synonym DateLUTImpl = string

text \<open>
  Modelled from the spec: \<^verbatim>\<open>DateLUT\<close>, the process-wide time zone lookup singleton.
  \<^verbatim>\<open>DateLUT::instance()\<close> hands out the local default time zone stored in it. The record
  is the part of the state of the process that the header reads; a larger process state
  is an extension of it.
\<close>

record DateLUT =
  default_impl :: DateLUTImpl

definition DateLUT_instance :: "'a DateLUT_scheme \<Rightarrow> DateLUTImpl" where
  "DateLUT_instance date_lut = default_impl date_lut"

subsection \<open>Transforms\<close>

text \<open>
  \<^verbatim>\<open>Transform::FactorTransform\<close> is either the marker \<^verbatim>\<open>ZeroTransform\<close> or a transform
  with one static \<^verbatim>\<open>execute\<close> overload for day numbers (\<^verbatim>\<open>UInt16\<close>) and one for
  seconds (\<^verbatim>\<open>UInt32\<close>), both returning a value of type \<open>'k\<close>.
\<close>

datatype 'k FactorTransform =
    ZeroTransform
  | Factor "16 word \<Rightarrow> DateLUTImpl \<Rightarrow> 'k" "32 word \<Rightarrow> DateLUTImpl \<Rightarrow> 'k"

text \<open>
  The template parameter \<^verbatim>\<open>Transform\<close>, as the header uses it: its \<^verbatim>\<open>name\<close>, its
  \<^verbatim>\<open>execute\<close> overloads for a day number and for a second count, each with the time
  zone, and its \<^verbatim>\<open>FactorTransform\<close>. The transforms themselves are parameters: every
  theorem holds for all of them.
\<close>

record ('r, 'k) Transform =
  name :: string
  execute_UInt16 :: "16 word \<Rightarrow> DateLUTImpl \<Rightarrow> 'r"
  execute_UInt32 :: "32 word \<Rightarrow> DateLUTImpl \<Rightarrow> 'r"
  FactorTransform :: "'k FactorTransform"

definition getName :: "('r, 'k, 'm) Transform_scheme \<Rightarrow> string" where
  "getName T = name T"

subsection \<open>Data types, columns and blocks\<close>

text \<open>
  Modelled from the spec: the data types of the host engine that an argument can have,
  with the queries the header asks of them. \<open>Date\<close> is the calendar-day type,
  \<open>DateTime\<close> the epoch-second type with its time zone name, \<open>DateTime64\<close> the
  scaled-tick type with its scale and time zone name. \<open>IDataType_getName\<close> is
  \<^verbatim>\<open>IDataType::getName\<close> and gives the name of the type family.
\<close>

datatype IDataType =
    Date
  | DateTime string
  | DateTime64 "32 word" string
  | String
  | UInt8
  | UInt16
  | UInt32
  | UInt64
  | Float64

fun isDate :: "IDataType \<Rightarrow> bool" where
  "isDate Date = True"
| "isDate _ = False"

fun isDateTime :: "IDataType \<Rightarrow> bool" where
  "isDateTime (DateTime tz) = True"
| "isDateTime _ = False"

fun isDateTime64 :: "IDataType \<Rightarrow> bool" where
  "isDateTime64 (DateTime64 s tz) = True"
| "isDateTime64 _ = False"

definition isDateOrDateTime :: "IDataType \<Rightarrow> bool" where
  "isDateOrDateTime t = (isDate t \<or> isDateTime t \<or> isDateTime64 t)"

fun isString :: "IDataType \<Rightarrow> bool" where
  "isString String = True"
| "isString _ = False"

fun getScale :: "IDataType \<Rightarrow> 32 word" where
  "getScale (DateTime64 s tz) = s"
| "getScale _ = 0"

fun IDataType_getName :: "IDataType \<Rightarrow> string" where
  "IDataType_getName Date = ''Date''"
| "IDataType_getName (DateTime tz) = ''DateTime''"
| "IDataType_getName (DateTime64 s tz) = ''DateTime64''"
| "IDataType_getName String = ''String''"
| "IDataType_getName UInt8 = ''UInt8''"
| "IDataType_getName UInt16 = ''UInt16''"
| "IDataType_getName UInt32 = ''UInt32''"
| "IDataType_getName UInt64 = ''UInt64''"
| "IDataType_getName Float64 = ''Float64''"

text \<open>
  The template parameter \<^verbatim>\<open>ToDataType\<close> is a data type class. The header compares it
  with \<^verbatim>\<open>DataTypeDate\<close>, \<^verbatim>\<open>DataTypeDateTime\<close> and \<^verbatim>\<open>DataTypeDateTime64\<close>; the three
  numeric classes stand for every other class, none of which takes a time zone.
\<close>

datatype ToDataType =
    DataTypeDate
  | DataTypeDateTime
  | DataTypeDateTime64
  | DataTypeUInt8
  | DataTypeUInt16
  | DataTypeUInt32

text \<open>
  The result of \<^verbatim>\<open>getReturnTypeImpl\<close> is \<^verbatim>\<open>std::make_shared<ToDataType>(...)\<close>: the class
  and the time zone name given to its constructor, if one is given.
\<close>

datatype DataTypePtr = make_shared ToDataType "string option"

text \<open>
  Modelled from the spec: a column is a batch of raw values of one physical encoding:
  day numbers (\<^verbatim>\<open>UInt16\<close>), second counts (\<^verbatim>\<open>UInt32\<close>), tick counts (\<^verbatim>\<open>Int64\<close> of a
  \<^verbatim>\<open>DateTime64\<close>), strings, a constant string, or the values a transform has written.
\<close>

datatype 'r IColumn =
    ColumnUInt16 "16 word list"
  | ColumnUInt32 "32 word list"
  | ColumnDateTime64 "64 word list"
  | ColumnString "string list"
  | ColumnConstString string
  | ColumnTo "'r list"

text \<open>
  Modelled from the spec: \<^verbatim>\<open>ColumnWithTypeAndName\<close>, an argument or a position of a block:
  a column, which may be absent, with its type and its name. A \<^verbatim>\<open>Block\<close> is the sequence
  of its positions.
\<close>

record 'r ColumnWithTypeAndName =
  column :: "'r IColumn option"
  type :: IDataType
  column_name :: string

type_synonym 'r Block = "'r ColumnWithTypeAndName list"

text \<open>
  Modelled from the spec: \<^verbatim>\<open>Field\<close>, a boundary of a range of key values: either null
  (the range is open on that side) or a value stored as \<^verbatim>\<open>UInt64\<close>, as the values of
  \<open>Date\<close> and \<open>DateTime\<close> columns are. \<open>get_UInt64\<close> is \<^verbatim>\<open>get<UInt64>()\<close>; the header
  calls it on non-null fields only.
\<close>

datatype Field = Null | UInt64_Field (get_UInt64: "64 word")

fun isNull :: "Field \<Rightarrow> bool" where
  "isNull Null = True"
| "isNull (UInt64_Field v) = False"

text \<open>
  Modelled from the spec: \<^verbatim>\<open>IFunction::Monotonicity\<close>, the answer of the monotonicity
  oracle, \<open>{isMonotonic, isAlwaysMonotonic}\<close>; both flags are false unless given.
\<close>

record Monotonicity =
  is_monotonic :: bool
  is_always_monotonic :: bool

definition Monotonicity :: "bool \<Rightarrow> Monotonicity" where
  "Monotonicity b = \<lparr>is_monotonic = b, is_always_monotonic = False\<rparr>"

subsection \<open>Helpers of the host engine\<close>

text \<open>
  Modelled from the spec: \<^verbatim>\<open>toString\<close> of \<^verbatim>\<open>IO/WriteHelpers.h\<close>, which writes the
  actual argument count into the message: the decimal digits of a \<^verbatim>\<open>size_t\<close>.
\<close>

definition digit :: "nat \<Rightarrow> char" where
  "digit d = ''0123456789'' ! d"

function toString :: "nat \<Rightarrow> string" where
  "toString n = (if n < 10 then [digit n] else toString (n div 10) @ [digit (n mod 10)])"
  by pat_completeness auto
termination
  by (relation "measure id") auto

text \<open>
  Modelled from the spec: \<^verbatim>\<open>DecimalUtils::getWholePart\<close>, the whole-second component of
  a scaled tick value: integer division toward negative infinity by \<open>10 ^ scale\<close>. The
  value and the result are \<^verbatim>\<open>Int64\<close>.
\<close>

definition getWholePart :: "64 word \<Rightarrow> nat \<Rightarrow> 64 word" where
  "getWholePart decimal scale = word_of_int (sint decimal div 10 ^ scale)"

text \<open>
  Modelled from the spec: \<^verbatim>\<open>extractTimeZoneNameFromFunctionArguments\<close>: the constant
  string of the time zone argument if it is given, else the time zone embedded in the type
  of the date-time argument if any, else the empty time zone.
\<close>

definition extractTimeZoneNameFromFunctionArguments ::
    "'r ColumnWithTypeAndName list \<Rightarrow> nat \<Rightarrow> nat \<Rightarrow> string" where
  "extractTimeZoneNameFromFunctionArguments arguments time_zone_arg_num datetime_arg_num =
     (case (if time_zone_arg_num < length arguments
            then column (arguments ! time_zone_arg_num) else None) of
        Some (ColumnConstString time_zone) \<Rightarrow> time_zone
      | _ \<Rightarrow>
        (if datetime_arg_num < length arguments
         then (case type (arguments ! datetime_arg_num) of
                 DateTime time_zone \<Rightarrow> time_zone
               | DateTime64 s time_zone \<Rightarrow> time_zone
               | _ \<Rightarrow> [])
         else []))"

section \<open>WithDateTime64Converter\<close>

text \<open>
  The adapter holds a scale (\<^verbatim>\<open>UInt8\<close>) and the transform. \<^verbatim>\<open>execute\<close> takes the tick
  count \<open>t\<close> (\<^verbatim>\<open>Int64\<close>), takes its whole part at the scale, casts it to \<^verbatim>\<open>UInt32\<close> and
  calls the \<^verbatim>\<open>UInt32\<close> overload of the transform.
\<close>

record ('r, 'k) WithDateTime64Converter =
  scale :: "8 word"
  transform :: "('r, 'k) Transform"

definition WithDateTime64Converter_execute ::
    "('r, 'k) WithDateTime64Converter \<Rightarrow> 64 word \<Rightarrow> DateLUTImpl \<Rightarrow> 'r" where
  "WithDateTime64Converter_execute c t time_zone =
     (let x = t;
          res = execute_UInt32 (transform c)
                  (ucast (getWholePart x (unat (scale c))) :: 32 word) time_zone
      in res)"

section \<open>FunctionDateOrDateTimeToSomething\<close>

subsection \<open>getReturnTypeImpl\<close>

definition getReturnTypeImpl ::
    "ToDataType \<Rightarrow> ('r, 'k) Transform \<Rightarrow> 'c ColumnWithTypeAndName list
      \<Rightarrow> Exception + DataTypePtr" where
  "getReturnTypeImpl ToDataType T arguments =
     (let return_type =
            (if ToDataType = DataTypeDateTime
             then make_shared ToDataType
                    (Some (extractTimeZoneNameFromFunctionArguments arguments 1 0))
             else if ToDataType = DataTypeDateTime64
             then make_shared ToDataType
                    (Some (extractTimeZoneNameFromFunctionArguments arguments 1 0))
             else make_shared ToDataType None)
      in
      if length arguments = 1 then
        (if \<not> isDateOrDateTime (type (arguments ! 0))
         then Inl (Exception
                (''Illegal type '' @ IDataType_getName (type (arguments ! 0))
                  @ '' of argument of function '' @ getName T
                  @ ''. Should be a date or a date with time'')
                ILLEGAL_TYPE_OF_ARGUMENT)
         else Inr return_type)
      else if length arguments = 2 then
        (if \<not> isDateOrDateTime (type (arguments ! 0))
         then Inl (Exception
                (''Illegal type '' @ IDataType_getName (type (arguments ! 0))
                  @ '' of argument of function '' @ getName T
                  @ ''. Should be a date or a date with time'')
                ILLEGAL_TYPE_OF_ARGUMENT)
         else if \<not> isString (type (arguments ! 1))
         then Inl (Exception
                (''Function '' @ getName T @ '' supports 1 or 2 arguments. The 1st argument ''
                  @ ''must be of type Date or DateTime. The 2nd argument (optional) must be ''
                  @ ''a constant string with timezone name'')
                ILLEGAL_TYPE_OF_ARGUMENT)
         else if isDate (type (arguments ! 0)) \<and> ToDataType = DataTypeDate
         then Inl (Exception
                (''The timezone argument of function '' @ getName T
                  @ '' is allowed only when the 1st argument has the type DateTime'')
                ILLEGAL_TYPE_OF_ARGUMENT)
         else Inr return_type)
      else Inl (Exception
             (''Number of arguments for function '' @ getName T
               @ '' doesn't match: passed '' @ toString (length arguments)
               @ '', should be 1 or 2'')
             NUMBER_OF_ARGUMENTS_DOESNT_MATCH))"

subsection \<open>executeImpl\<close>

text \<open>
  Modelled from the spec: \<^verbatim>\<open>DateTimeTransformImpl<FromDataType, ToDataType, Transform>::execute\<close>
  of \<^verbatim>\<open>DateTimeTransforms.h\<close>: the transform is applied to each value of the source column
  (the column at \<^verbatim>\<open>arguments[0]\<close>) with the time zone of the batch, row by row, and the
  values are written as the column at position \<^verbatim>\<open>result\<close>. \<open>checkAndGetColumn\<close> reads the
  source column as the column type of \<^verbatim>\<open>FromDataType\<close>; for a column of another encoding
  the spec gives no result, which is \<open>None\<close> here.
\<close>

fun checkAndGetColumn_UInt16 :: "'r IColumn option \<Rightarrow> 16 word list option" where
  "checkAndGetColumn_UInt16 (Some (ColumnUInt16 vec_from)) = Some vec_from"
| "checkAndGetColumn_UInt16 _ = None"

fun checkAndGetColumn_UInt32 :: "'r IColumn option \<Rightarrow> 32 word list option" where
  "checkAndGetColumn_UInt32 (Some (ColumnUInt32 vec_from)) = Some vec_from"
| "checkAndGetColumn_UInt32 _ = None"

fun checkAndGetColumn_DateTime64 :: "'r IColumn option \<Rightarrow> 64 word list option" where
  "checkAndGetColumn_DateTime64 (Some (ColumnDateTime64 vec_from)) = Some vec_from"
| "checkAndGetColumn_DateTime64 _ = None"

definition Transformer_vector ::
    "'a list \<Rightarrow> DateLUTImpl \<Rightarrow> ('a \<Rightarrow> DateLUTImpl \<Rightarrow> 'r) \<Rightarrow> 'r list" where
  "Transformer_vector vec_from time_zone transform_execute =
     map (\<lambda>v. transform_execute v time_zone) vec_from"

definition extractTimeZoneFromFunctionArguments ::
    "'r Block \<Rightarrow> nat list \<Rightarrow> nat \<Rightarrow> nat \<Rightarrow> DateLUTImpl" where
  "extractTimeZoneFromFunctionArguments block arguments time_zone_arg_num datetime_arg_num =
     extractTimeZoneNameFromFunctionArguments (map (\<lambda>p. block ! p) arguments)
       time_zone_arg_num datetime_arg_num"

definition DateTimeTransformImpl_execute ::
    "('r IColumn option \<Rightarrow> 'a list option) \<Rightarrow> 'r Block \<Rightarrow> nat list \<Rightarrow> nat \<Rightarrow> nat
      \<Rightarrow> ('a \<Rightarrow> DateLUTImpl \<Rightarrow> 'r) \<Rightarrow> (Exception + 'r Block) option" where
  "DateTimeTransformImpl_execute checkAndGetColumn block arguments result input_rows_count
       transform_execute =
     (let time_zone = extractTimeZoneFromFunctionArguments block arguments 1 0;
          source_col = column (block ! (arguments ! 0))
      in case checkAndGetColumn source_col of
           None \<Rightarrow> None
         | Some vec_from \<Rightarrow>
             Some (Inr (block[result := (block ! result)
               \<lparr>column := Some (ColumnTo
                   (Transformer_vector vec_from time_zone transform_execute))\<rparr>])))"

text \<open>
  \<^verbatim>\<open>executeImpl\<close> changes the block: the model returns the new block. The caller passes
  positions that are inside the block and at least one argument; \<^verbatim>\<open>arguments[0]\<close> and
  \<^verbatim>\<open>getByPosition\<close> are unchecked reads, and the model returns \<open>None\<close> for positions
  outside the block rather than a value.
\<close>

definition positions_in_block :: "'r Block \<Rightarrow> nat list \<Rightarrow> nat \<Rightarrow> bool" where
  "positions_in_block block arguments result =
     (arguments \<noteq> [] \<and> list_all (\<lambda>p. p < length block) arguments \<and> result < length block)"

definition executeImpl ::
    "('r, 'k) Transform \<Rightarrow> 'r Block \<Rightarrow> nat list \<Rightarrow> nat \<Rightarrow> nat
      \<Rightarrow> (Exception + 'r Block) option" where
  "executeImpl T block arguments result input_rows_count =
     (if \<not> positions_in_block block arguments result then None
      else
        let from_type = type (block ! (arguments ! 0)) in
        if isDate from_type then
          DateTimeTransformImpl_execute checkAndGetColumn_UInt16
            block arguments result input_rows_count (execute_UInt16 T)
        else if isDateTime from_type then
          DateTimeTransformImpl_execute checkAndGetColumn_UInt32
            block arguments result input_rows_count (execute_UInt32 T)
        else if isDateTime64 from_type then
          (let scale = getScale from_type;
               transformer = \<lparr>scale = ucast scale, transform = T\<rparr>
           in DateTimeTransformImpl_execute checkAndGetColumn_DateTime64
                block arguments result input_rows_count
                (WithDateTime64Converter_execute transformer))
        else
          Some (Inl (Exception
            (''Illegal type '' @ IDataType_getName (type (block ! (arguments ! 0)))
              @ '' of argument of function '' @ getName T)
            ILLEGAL_TYPE_OF_ARGUMENT)))"

subsection \<open>getMonotonicityForRange\<close>

text \<open>
  The method has no time zone parameter: it reads the local default time zone from the
  singleton, \<^verbatim>\<open>DateLUT::instance()\<close>, so the singleton is an argument of the model. The
  boundaries are read as \<^verbatim>\<open>UInt64\<close> and cast to \<^verbatim>\<open>UInt16\<close> for a \<open>Date\<close> and to
  \<^verbatim>\<open>UInt32\<close> for every other type.
\<close>

definition getMonotonicityForRange ::
    "('r, 'k) Transform \<Rightarrow> 'a DateLUT_scheme \<Rightarrow> IDataType \<Rightarrow> Field \<Rightarrow> Field
      \<Rightarrow> Monotonicity" where
  "getMonotonicityForRange T date_lut_singleton data_type left right =
     (let is_monotonic' = Monotonicity True;
          is_not_monotonic = Monotonicity False
      in case FactorTransform T of
           ZeroTransform \<Rightarrow> is_monotonic'\<lparr>is_always_monotonic := True\<rparr>
         | Factor execute16 execute32 \<Rightarrow>
             (let date_lut = DateLUT_instance date_lut_singleton in
              if isNull left \<or> isNull right then is_not_monotonic
              else if isDate data_type then
                (if execute16 (ucast (get_UInt64 left) :: 16 word) date_lut
                    = execute16 (ucast (get_UInt64 right) :: 16 word) date_lut
                 then is_monotonic' else is_not_monotonic)
              else
                (if execute32 (ucast (get_UInt64 left) :: 32 word) date_lut
                    = execute32 (ucast (get_UInt64 right) :: 32 word) date_lut
                 then is_monotonic' else is_not_monotonic)))"

section \<open>Casts between integer widths\<close>

lemma floor_div_pow10: "\<lfloor>real_of_int k / 10 ^ n\<rfloor> = k div 10 ^ n"
proof -
  have "\<lfloor>real_of_int k / real_of_int (10 ^ n)\<rfloor> = k div 10 ^ n"
    by (rule floor_divide_of_int_eq)
  then show ?thesis by simp
qed

lemma ucast_64_32_word_of_int:
  "(ucast (word_of_int k :: 64 word) :: 32 word) = word_of_int k"
proof -
  have "uint (ucast (word_of_int k :: 64 word) :: 32 word) = take_bit 32 (take_bit 64 k)"
    by (simp add: unsigned_ucast_eq uint_word_of_int_eq)
  also have "\<dots> = take_bit 32 k" by simp
  also have "\<dots> = uint (word_of_int k :: 32 word)"
    by (simp add: uint_word_of_int_eq)
  finally show ?thesis by (simp add: word_eq_iff_unsigned [where ?'a = int])
qed

lemma uint_word_of_int_32: "uint (word_of_int k :: 32 word) = k mod 2 ^ 32"
  by (simp add: uint_word_of_int_eq take_bit_eq_mod)

lemma uint_ucast_64_32_word_of_int:
  "uint (ucast (word_of_int k :: 64 word) :: 32 word) = k mod 2 ^ 32"
  by (simp add: ucast_64_32_word_of_int uint_word_of_int_32)

lemma uint_ucast_64_32_sint:
  "uint (ucast (w :: 64 word) :: 32 word) = sint w mod 2 ^ 32"
  using uint_ucast_64_32_word_of_int [of "sint w"] by simp

lemma ucast_64_16_cong:
  "(ucast (w :: 64 word) :: 16 word) = ucast w' \<longleftrightarrow> unat w mod 2 ^ 16 = unat w' mod 2 ^ 16"
  by (simp add: word_eq_iff_unsigned [where ?'a = nat] unsigned_ucast_eq take_bit_eq_mod)

lemma ucast_64_32_cong:
  "(ucast (w :: 64 word) :: 32 word) = ucast w' \<longleftrightarrow> unat w mod 2 ^ 32 = unat w' mod 2 ^ 32"
  by (simp add: word_eq_iff_unsigned [where ?'a = nat] unsigned_ucast_eq take_bit_eq_mod)

lemma ucast_64_16_word_of_nat:
  "(ucast (w :: 64 word) :: 16 word) = word_of_nat (unat w mod 2 ^ 16)"
  by (simp add: word_eq_iff_unsigned [where ?'a = nat] unsigned_ucast_eq take_bit_eq_mod
      unsigned_of_nat)

lemma ucast_64_32_word_of_nat:
  "(ucast (w :: 64 word) :: 32 word) = word_of_nat (unat w mod 2 ^ 32)"
  by (simp add: word_eq_iff_unsigned [where ?'a = nat] unsigned_ucast_eq take_bit_eq_mod
      unsigned_of_nat)

section \<open>The scale adapter\<close>

text \<open>
  C9. For every scale and every tick value \<open>t\<close>, the base transform is called on the
  whole part of \<open>t\<close> at that scale cast to \<^verbatim>\<open>UInt32\<close>: the value it receives is the whole
  part reduced modulo \<open>2 ^ 32\<close>, so it lies in \<open>0 ..< 2 ^ 32\<close> whatever the sign or size
  of the whole part; a negative or wider second count is never delivered.
\<close>

theorem WithDateTime64Converter_delivers_UInt32:
  "WithDateTime64Converter_execute c t time_zone
     = execute_UInt32 (transform c)
         (ucast (getWholePart t (unat (scale c))) :: 32 word) time_zone
   \<and> uint (ucast (getWholePart t (unat (scale c))) :: 32 word)
       = sint (getWholePart t (unat (scale c))) mod 2 ^ 32
   \<and> 0 \<le> uint (ucast (getWholePart t (unat (scale c))) :: 32 word)
   \<and> uint (ucast (getWholePart t (unat (scale c))) :: 32 word) < 2 ^ 32"
proof -
  have "uint (ucast (getWholePart t (unat (scale c))) :: 32 word) < 2 ^ 32"
    using uint_bounded [of "ucast (getWholePart t (unat (scale c))) :: 32 word"]
    by simp
  then show ?thesis
    by (simp add: WithDateTime64Converter_execute_def uint_ucast_64_32_sint)
qed

text \<open>
  C1, as the specification states it, fails: at scale 3 the tick value \<open>-500\<close> has the
  floor \<open>-1\<close>, but the adapter hands the transform a \<^verbatim>\<open>UInt32\<close>, which is not negative,
  whatever whole part \<^verbatim>\<open>getWholePart\<close> returns. The transform of the example returns the
  second count it is given.
\<close>

theorem WithDateTime64Converter_floor_counterexample:
  "\<lfloor>real_of_int (sint (- 500 :: 64 word)) / 10 ^ 3\<rfloor> = (- 1 :: int)
   \<and> 0 \<le> WithDateTime64Converter_execute
     \<lparr>scale = 3, transform = \<lparr>name = ''toSecond'', execute_UInt16 = (\<lambda>d tz. uint d),
        execute_UInt32 = (\<lambda>t tz. uint t),
        FactorTransform = (ZeroTransform :: unit FactorTransform)\<rparr>\<rparr>
     (- 500) ''UTC''
   \<and> WithDateTime64Converter_execute
     \<lparr>scale = 3, transform = \<lparr>name = ''toSecond'', execute_UInt16 = (\<lambda>d tz. uint d),
        execute_UInt32 = (\<lambda>t tz. uint t),
        FactorTransform = (ZeroTransform :: unit FactorTransform)\<rparr>\<rparr>
     (- 500) ''UTC'' \<noteq> \<lfloor>real_of_int (sint (- 500 :: 64 word)) / 10 ^ 3\<rfloor>"
proof -
  have "\<lfloor>real_of_int (sint (- 500 :: 64 word)) / 10 ^ 3\<rfloor> = sint (- 500 :: 64 word) div 10 ^ 3"
    by (rule floor_div_pow10)
  then have f: "\<lfloor>real_of_int (sint (- 500 :: 64 word)) / 10 ^ 3\<rfloor> = (- 1 :: int)"
    by simp
  have e: "WithDateTime64Converter_execute
     \<lparr>scale = 3, transform = \<lparr>name = ''toSecond'', execute_UInt16 = (\<lambda>d tz. uint d),
        execute_UInt32 = (\<lambda>t tz. uint t),
        FactorTransform = (ZeroTransform :: unit FactorTransform)\<rparr>\<rparr>
     (- 500) ''UTC'' = uint (ucast (getWholePart (- 500) 3) :: 32 word)"
    by (simp add: WithDateTime64Converter_execute_def)
  have "0 \<le> uint (ucast (getWholePart (- 500) 3) :: 32 word)"
    by simp
  then have "uint (ucast (getWholePart (- 500) 3) :: 32 word) \<noteq> - 1"
    by linarith
  then show ?thesis
    unfolding e f by simp
qed

text \<open>
  C1, amended. For every scale in \<open>0..9\<close>: for every tick value \<open>t\<close> that is not negative,
  the second count the adapter derives and hands to the transform is the floor of
  \<open>t / 10 ^ scale\<close> cast to \<^verbatim>\<open>UInt32\<close>, that is the floor reduced modulo \<open>2 ^ 32\<close>, and the
  floor itself whenever the floor is below \<open>2 ^ 32\<close>; the fractional part is discarded, never
  rounded. For every negative tick value the second count handed to the transform is the
  whole part cast to \<^verbatim>\<open>UInt32\<close>: it is not negative and so is never the floor. (On tick
  values that are not negative, rounding toward negative infinity and toward zero agree.)
\<close>

theorem WithDateTime64Converter_whole_seconds:
  assumes "unat (scale c) \<le> 9"
  shows "(0 \<le> sint t \<longrightarrow>
            WithDateTime64Converter_execute c t time_zone
              = execute_UInt32 (transform c)
                  (word_of_int \<lfloor>real_of_int (sint t) / 10 ^ unat (scale c)\<rfloor> :: 32 word)
                  time_zone
          \<and> uint (word_of_int \<lfloor>real_of_int (sint t) / 10 ^ unat (scale c)\<rfloor> :: 32 word)
              = \<lfloor>real_of_int (sint t) / 10 ^ unat (scale c)\<rfloor> mod 2 ^ 32
          \<and> (\<lfloor>real_of_int (sint t) / 10 ^ unat (scale c)\<rfloor> < 2 ^ 32 \<longrightarrow>
               uint (word_of_int \<lfloor>real_of_int (sint t) / 10 ^ unat (scale c)\<rfloor> :: 32 word)
                 = \<lfloor>real_of_int (sint t) / 10 ^ unat (scale c)\<rfloor>))
       \<and> (sint t < 0 \<longrightarrow>
            WithDateTime64Converter_execute c t time_zone
              = execute_UInt32 (transform c)
                  (ucast (getWholePart t (unat (scale c))) :: 32 word) time_zone
          \<and> 0 \<le> uint (ucast (getWholePart t (unat (scale c))) :: 32 word)
          \<and> uint (ucast (getWholePart t (unat (scale c))) :: 32 word)
              \<noteq> \<lfloor>real_of_int (sint t) / 10 ^ unat (scale c)\<rfloor>)"
proof -
  define secs where "secs = \<lfloor>real_of_int (sint t) / 10 ^ unat (scale c)\<rfloor>"
  have s: "secs = sint t div 10 ^ unat (scale c)"
    unfolding secs_def by (rule floor_div_pow10)
  then have w: "getWholePart t (unat (scale c)) = word_of_int secs"
    by (simp add: getWholePart_def)
  have 1: "WithDateTime64Converter_execute c t time_zone
             = execute_UInt32 (transform c) (word_of_int secs :: 32 word) time_zone"
    by (simp add: WithDateTime64Converter_execute_def w ucast_64_32_word_of_int)
  have 2: "uint (word_of_int secs :: 32 word) = secs mod 2 ^ 32"
    by (rule uint_word_of_int_32)
  have 3: "0 \<le> sint t \<Longrightarrow> secs < 2 ^ 32 \<Longrightarrow> uint (word_of_int secs :: 32 word) = secs"
  proof -
    assume "0 \<le> sint t" and "secs < 2 ^ 32"
    moreover from \<open>0 \<le> sint t\<close> have "0 \<le> secs"
      unfolding s by (simp add: pos_imp_zdiv_nonneg_iff)
    ultimately show ?thesis by (simp add: 2)
  qed
  have 4: "WithDateTime64Converter_execute c t time_zone
             = execute_UInt32 (transform c)
                 (ucast (getWholePart t (unat (scale c))) :: 32 word) time_zone"
    by (simp add: WithDateTime64Converter_execute_def)
  have 5: "0 \<le> uint (ucast (getWholePart t (unat (scale c))) :: 32 word)"
    by simp
  have 6: "sint t < 0 \<Longrightarrow> uint (ucast (getWholePart t (unat (scale c))) :: 32 word) \<noteq> secs"
  proof -
    assume "sint t < 0"
    then have "secs < 0"
      unfolding s by (simp add: pos_imp_zdiv_neg_iff)
    with 5 show ?thesis by linarith
  qed
  from 1 2 3 4 5 6 show ?thesis
    unfolding secs_def by blast
qed

theorem WithDateTime64Converter_whole_seconds_witness:
  "(let c = \<lparr>scale = 3, transform = \<lparr>name = ''toSecond'',
                execute_UInt16 = (\<lambda>d tz. uint d), execute_UInt32 = (\<lambda>t tz. uint t),
                FactorTransform = (ZeroTransform :: unit FactorTransform)\<rparr>\<rparr>
    in unat (scale c) \<le> 9
     \<and> 0 \<le> sint (1999 :: 64 word)
     \<and> \<lfloor>real_of_int (sint (1999 :: 64 word)) / 10 ^ 3\<rfloor> < (2 ^ 32 :: int)
     \<and> WithDateTime64Converter_execute c 1999 ''UTC'' = 1
     \<and> sint (- 500 :: 64 word) < 0
     \<and> WithDateTime64Converter_execute c (- 500) ''UTC'' \<noteq> - 1)"
proof -
  let ?c = "\<lparr>scale = 3, transform = \<lparr>name = ''toSecond'',
        execute_UInt16 = (\<lambda>d tz. uint d), execute_UInt32 = (\<lambda>t tz. uint t),
        FactorTransform = (ZeroTransform :: unit FactorTransform)\<rparr>\<rparr>"
  have h: "unat (scale ?c) \<le> 9" by simp
  have p: "0 \<le> sint (1999 :: 64 word)" by simp
  have n: "sint (- 500 :: 64 word) < 0" by simp
  have "\<lfloor>real_of_int (sint (1999 :: 64 word)) / 10 ^ 3\<rfloor> = sint (1999 :: 64 word) div 10 ^ 3"
    by (rule floor_div_pow10)
  then have f: "\<lfloor>real_of_int (sint (1999 :: 64 word)) / 10 ^ 3\<rfloor> = (1::int)"
    by simp
  have "\<lfloor>real_of_int (sint (- 500 :: 64 word)) / 10 ^ 3\<rfloor> = sint (- 500 :: 64 word) div 10 ^ 3"
    by (rule floor_div_pow10)
  then have g: "\<lfloor>real_of_int (sint (- 500 :: 64 word)) / 10 ^ 3\<rfloor> = (- 1 :: int)"
    by simp
  have a: "WithDateTime64Converter_execute ?c 1999 ''UTC'' = 1"
    using WithDateTime64Converter_whole_seconds [OF h, of 1999 "''UTC''",
            THEN conjunct1, rule_format, OF p]
    unfolding f by simp
  have b: "WithDateTime64Converter_execute ?c (- 500) ''UTC'' \<noteq> - 1"
    using WithDateTime64Converter_whole_seconds [OF h, of "- 500" "''UTC''",
            THEN conjunct2, rule_format, OF n]
    unfolding g by simp
  from h p f a n b show ?thesis by (simp only: Let_def) simp
qed

section \<open>The monotonicity oracle\<close>

lemma getMonotonicityForRange_when_Zero:
  "FactorTransform T = ZeroTransform \<Longrightarrow>
   getMonotonicityForRange T date_lut data_type left right
     = \<lparr>is_monotonic = True, is_always_monotonic = True\<rparr>"
  by (simp add: getMonotonicityForRange_def Monotonicity_def)

lemma getMonotonicityForRange_when_Factor:
  "FactorTransform T = Factor execute16 execute32 \<Longrightarrow>
   getMonotonicityForRange T date_lut data_type left right
     = (if isNull left \<or> isNull right then Monotonicity False
        else if isDate data_type
        then Monotonicity (execute16 (ucast (get_UInt64 left)) (DateLUT_instance date_lut)
                           = execute16 (ucast (get_UInt64 right)) (DateLUT_instance date_lut))
        else Monotonicity (execute32 (ucast (get_UInt64 left)) (DateLUT_instance date_lut)
                           = execute32 (ucast (get_UInt64 right)) (DateLUT_instance date_lut)))"
  by (simp add: getMonotonicityForRange_def Let_def)

text \<open>
  C3. When the \<^verbatim>\<open>FactorTransform\<close> of the transform is \<^verbatim>\<open>ZeroTransform\<close>,
  \<^verbatim>\<open>getMonotonicityForRange\<close> answers monotonic with \<open>is_always_monotonic\<close> set, for
  every input type and every pair of boundaries, null or not, equal or not: the answer is
  the same for any other type, range and default time zone, so the range is not looked at.
\<close>

theorem getMonotonicityForRange_ZeroTransform:
  assumes "FactorTransform T = ZeroTransform"
  shows "getMonotonicityForRange T date_lut data_type left right
           = \<lparr>is_monotonic = True, is_always_monotonic = True\<rparr>
         \<and> is_always_monotonic (getMonotonicityForRange T date_lut data_type left right)
         \<and> getMonotonicityForRange T date_lut data_type left right
           = getMonotonicityForRange T date_lut' data_type' left' right'"
  using assms by (simp add: getMonotonicityForRange_when_Zero)

theorem getMonotonicityForRange_ZeroTransform_witness:
  "(let T = \<lparr>name = ''toDate'', execute_UInt16 = (\<lambda>d tz. unat d),
              execute_UInt32 = (\<lambda>t tz. unat t div 86400),
              FactorTransform = (ZeroTransform :: nat FactorTransform)\<rparr>
    in FactorTransform T = ZeroTransform
     \<and> getMonotonicityForRange T \<lparr>default_impl = ''UTC''\<rparr> Date Null (UInt64_Field 17000)
         = \<lparr>is_monotonic = True, is_always_monotonic = True\<rparr>
     \<and> getMonotonicityForRange T \<lparr>default_impl = ''UTC''\<rparr> (DateTime [])
           (UInt64_Field 5) (UInt64_Field 5)
         = \<lparr>is_monotonic = True, is_always_monotonic = True\<rparr>)"
proof -
  let ?T = "\<lparr>name = ''toDate'', execute_UInt16 = (\<lambda>d tz. unat d),
              execute_UInt32 = (\<lambda>t tz. unat t div 86400),
              FactorTransform = (ZeroTransform :: nat FactorTransform)\<rparr>"
  have h: "FactorTransform ?T = ZeroTransform" by simp
  from getMonotonicityForRange_ZeroTransform [OF h, of "\<lparr>default_impl = ''UTC''\<rparr>" Date Null "UInt64_Field 17000"]
       getMonotonicityForRange_ZeroTransform [OF h, of "\<lparr>default_impl = ''UTC''\<rparr>" "DateTime []" "UInt64_Field 5" "UInt64_Field 5"]
       h
  show ?thesis by (simp only: Let_def) blast
qed

text \<open>
  C2. When the \<^verbatim>\<open>FactorTransform\<close> is not \<^verbatim>\<open>ZeroTransform\<close>: a null boundary on either
  side gives the answer not monotonic. With both boundaries given, they are converted to
  the width of the input type (\<^verbatim>\<open>UInt16\<close>, the day number, for \<open>Date\<close>; \<^verbatim>\<open>UInt32\<close>, the
  second count, for every other type), the factor transform is evaluated at both, and the
  answer is monotonic if and only if the two factor values are equal; it is never
  always-monotonic.
\<close>

theorem getMonotonicityForRange_factor_equality:
  assumes "FactorTransform T = Factor execute16 execute32"
  shows "(isNull left \<or> isNull right \<longrightarrow>
            getMonotonicityForRange T date_lut data_type left right
              = \<lparr>is_monotonic = False, is_always_monotonic = False\<rparr>)
       \<and> (\<not> isNull left \<and> \<not> isNull right \<and> data_type = Date \<longrightarrow>
            getMonotonicityForRange T date_lut data_type left right
              = \<lparr>is_monotonic =
                    (execute16 (ucast (get_UInt64 left) :: 16 word) (DateLUT_instance date_lut)
                     = execute16 (ucast (get_UInt64 right) :: 16 word) (DateLUT_instance date_lut)),
                  is_always_monotonic = False\<rparr>)
       \<and> (\<not> isNull left \<and> \<not> isNull right \<and> data_type \<noteq> Date \<longrightarrow>
            getMonotonicityForRange T date_lut data_type left right
              = \<lparr>is_monotonic =
                    (execute32 (ucast (get_UInt64 left) :: 32 word) (DateLUT_instance date_lut)
                     = execute32 (ucast (get_UInt64 right) :: 32 word) (DateLUT_instance date_lut)),
                  is_always_monotonic = False\<rparr>)"
proof -
  have "isDate data_type \<longleftrightarrow> data_type = Date"
    by (cases data_type) simp_all
  then show ?thesis
    using assms by (simp add: getMonotonicityForRange_when_Factor Monotonicity_def)
qed

theorem getMonotonicityForRange_factor_equality_witness:
  "(let T = \<lparr>name = ''toHour'', execute_UInt16 = (\<lambda>d tz. 0 :: nat),
              execute_UInt32 = (\<lambda>t tz. (unat t div 3600) mod 24),
              FactorTransform = Factor (\<lambda>d tz. unat d) (\<lambda>t tz. unat t div 86400)\<rparr>
    in getMonotonicityForRange T \<lparr>default_impl = ''UTC''\<rparr> (DateTime [])
           Null (UInt64_Field 1609459200)
         = \<lparr>is_monotonic = False, is_always_monotonic = False\<rparr>
     \<and> getMonotonicityForRange T \<lparr>default_impl = ''UTC''\<rparr> Date
           (UInt64_Field 18627) (UInt64_Field 18627)
         = \<lparr>is_monotonic = True, is_always_monotonic = False\<rparr>
     \<and> getMonotonicityForRange T \<lparr>default_impl = ''UTC''\<rparr> (DateTime [])
           (UInt64_Field 1609459199) (UInt64_Field 1609459200)
         = \<lparr>is_monotonic = False, is_always_monotonic = False\<rparr>
     \<and> getMonotonicityForRange T \<lparr>default_impl = ''UTC''\<rparr> (DateTime [])
           (UInt64_Field 1609459200) (UInt64_Field 1609459201)
         = \<lparr>is_monotonic = True, is_always_monotonic = False\<rparr>)"
proof -
  let ?T = "\<lparr>name = ''toHour'', execute_UInt16 = (\<lambda>d tz. 0 :: nat),
              execute_UInt32 = (\<lambda>t tz. (unat t div 3600) mod 24),
              FactorTransform = Factor (\<lambda>d tz. unat d) (\<lambda>t tz. unat t div 86400)\<rparr>"
  let ?lut = "\<lparr>default_impl = ''UTC''\<rparr>"
  have h: "FactorTransform ?T = Factor (\<lambda>d tz. unat d) (\<lambda>t tz. unat t div 86400)"
    by simp
  have a: "getMonotonicityForRange ?T ?lut (DateTime []) Null (UInt64_Field 1609459200)
         = \<lparr>is_monotonic = False, is_always_monotonic = False\<rparr>"
    using getMonotonicityForRange_factor_equality [OF h, of Null "UInt64_Field 1609459200" ?lut "DateTime []"] by simp
  have b: "getMonotonicityForRange ?T ?lut Date (UInt64_Field 18627) (UInt64_Field 18627)
         = \<lparr>is_monotonic = True, is_always_monotonic = False\<rparr>"
    using getMonotonicityForRange_factor_equality [OF h, of "UInt64_Field 18627" "UInt64_Field 18627" ?lut Date] by simp
  have c: "getMonotonicityForRange ?T ?lut (DateTime [])
           (UInt64_Field 1609459199) (UInt64_Field 1609459200)
         = \<lparr>is_monotonic = False, is_always_monotonic = False\<rparr>"
    using getMonotonicityForRange_factor_equality [OF h, of "UInt64_Field 1609459199" "UInt64_Field 1609459200" ?lut "DateTime []"]
    by (simp add: ucast_64_32_word_of_nat unsigned_of_nat)
  have d: "getMonotonicityForRange ?T ?lut (DateTime [])
           (UInt64_Field 1609459200) (UInt64_Field 1609459201)
         = \<lparr>is_monotonic = True, is_always_monotonic = False\<rparr>"
    using getMonotonicityForRange_factor_equality [OF h, of "UInt64_Field 1609459200" "UInt64_Field 1609459201" ?lut "DateTime []"]
    by (simp add: ucast_64_32_word_of_nat unsigned_of_nat)
  from a b c d show ?thesis by (simp only: Let_def)
qed

text \<open>
  C10. A non-null boundary is read as a \<^verbatim>\<open>UInt64\<close> and truncated to 16 bits for \<open>Date\<close>
  and to 32 bits for every other type before the factor transform sees it: the factor
  transform is evaluated at the boundary modulo \<open>2 ^ 16\<close> (\<open>2 ^ 32\<close>), and two pairs of
  boundaries that are congruent modulo \<open>2 ^ 16\<close> (\<open>2 ^ 32\<close>) get the same answer.
\<close>

theorem getMonotonicityForRange_truncates_boundaries:
  "(FactorTransform T = Factor execute16 execute32 \<and> data_type = Date \<longrightarrow>
      is_monotonic (getMonotonicityForRange T date_lut data_type (UInt64_Field l) (UInt64_Field r))
        = (execute16 (word_of_nat (unat l mod 2 ^ 16)) (DateLUT_instance date_lut)
           = execute16 (word_of_nat (unat r mod 2 ^ 16)) (DateLUT_instance date_lut)))
 \<and> (FactorTransform T = Factor execute16 execute32 \<and> data_type \<noteq> Date \<longrightarrow>
      is_monotonic (getMonotonicityForRange T date_lut data_type (UInt64_Field l) (UInt64_Field r))
        = (execute32 (word_of_nat (unat l mod 2 ^ 32)) (DateLUT_instance date_lut)
           = execute32 (word_of_nat (unat r mod 2 ^ 32)) (DateLUT_instance date_lut)))
 \<and> (data_type = Date \<and> unat l mod 2 ^ 16 = unat l' mod 2 ^ 16
      \<and> unat r mod 2 ^ 16 = unat r' mod 2 ^ 16 \<longrightarrow>
      getMonotonicityForRange T date_lut data_type (UInt64_Field l) (UInt64_Field r)
        = getMonotonicityForRange T date_lut data_type (UInt64_Field l') (UInt64_Field r'))
 \<and> (data_type \<noteq> Date \<and> unat l mod 2 ^ 32 = unat l' mod 2 ^ 32
      \<and> unat r mod 2 ^ 32 = unat r' mod 2 ^ 32 \<longrightarrow>
      getMonotonicityForRange T date_lut data_type (UInt64_Field l) (UInt64_Field r)
        = getMonotonicityForRange T date_lut data_type (UInt64_Field l') (UInt64_Field r'))"
proof -
  have d: "isDate data_type \<longleftrightarrow> data_type = Date"
    by (cases data_type) simp_all
  have a: "FactorTransform T = Factor execute16 execute32 \<and> data_type = Date \<longrightarrow>
      is_monotonic (getMonotonicityForRange T date_lut data_type (UInt64_Field l) (UInt64_Field r))
        = (execute16 (word_of_nat (unat l mod 2 ^ 16)) (DateLUT_instance date_lut)
           = execute16 (word_of_nat (unat r mod 2 ^ 16)) (DateLUT_instance date_lut))"
    by (simp add: getMonotonicityForRange_when_Factor Monotonicity_def
        ucast_64_16_word_of_nat)
  have b: "FactorTransform T = Factor execute16 execute32 \<and> data_type \<noteq> Date \<longrightarrow>
      is_monotonic (getMonotonicityForRange T date_lut data_type (UInt64_Field l) (UInt64_Field r))
        = (execute32 (word_of_nat (unat l mod 2 ^ 32)) (DateLUT_instance date_lut)
           = execute32 (word_of_nat (unat r mod 2 ^ 32)) (DateLUT_instance date_lut))"
    using d by (simp add: getMonotonicityForRange_when_Factor Monotonicity_def
        ucast_64_32_word_of_nat)
  have c: "data_type = Date \<and> unat l mod 2 ^ 16 = unat l' mod 2 ^ 16
      \<and> unat r mod 2 ^ 16 = unat r' mod 2 ^ 16 \<longrightarrow>
      getMonotonicityForRange T date_lut data_type (UInt64_Field l) (UInt64_Field r)
        = getMonotonicityForRange T date_lut data_type (UInt64_Field l') (UInt64_Field r')"
  proof (cases "FactorTransform T")
    case ZeroTransform
    then show ?thesis by (simp add: getMonotonicityForRange_when_Zero)
  next
    case (Factor e16 e32)
    show ?thesis
    proof (intro impI, elim conjE)
      assume "data_type = Date" and "unat l mod 2 ^ 16 = unat l' mod 2 ^ 16"
        and "unat r mod 2 ^ 16 = unat r' mod 2 ^ 16"
      then have "(ucast l :: 16 word) = ucast l'" and "(ucast r :: 16 word) = ucast r'"
        and "isDate data_type"
        by (simp_all add: ucast_64_16_cong)
      then show "getMonotonicityForRange T date_lut data_type (UInt64_Field l) (UInt64_Field r)
        = getMonotonicityForRange T date_lut data_type (UInt64_Field l') (UInt64_Field r')"
        using Factor by (simp add: getMonotonicityForRange_when_Factor)
    qed
  qed
  have e: "data_type \<noteq> Date \<and> unat l mod 2 ^ 32 = unat l' mod 2 ^ 32
      \<and> unat r mod 2 ^ 32 = unat r' mod 2 ^ 32 \<longrightarrow>
      getMonotonicityForRange T date_lut data_type (UInt64_Field l) (UInt64_Field r)
        = getMonotonicityForRange T date_lut data_type (UInt64_Field l') (UInt64_Field r')"
  proof (cases "FactorTransform T")
    case ZeroTransform
    then show ?thesis by (simp add: getMonotonicityForRange_when_Zero)
  next
    case (Factor e16 e32)
    show ?thesis
    proof (intro impI, elim conjE)
      assume "data_type \<noteq> Date" and "unat l mod 2 ^ 32 = unat l' mod 2 ^ 32"
        and "unat r mod 2 ^ 32 = unat r' mod 2 ^ 32"
      then have "(ucast l :: 32 word) = ucast l'" and "(ucast r :: 32 word) = ucast r'"
        and "\<not> isDate data_type"
        using d by (simp_all add: ucast_64_32_cong)
      then show "getMonotonicityForRange T date_lut data_type (UInt64_Field l) (UInt64_Field r)
        = getMonotonicityForRange T date_lut data_type (UInt64_Field l') (UInt64_Field r')"
        using Factor by (simp add: getMonotonicityForRange_when_Factor)
    qed
  qed
  from a b c e show ?thesis by blast
qed

theorem getMonotonicityForRange_truncates_boundaries_witness:
  "(let T = \<lparr>name = ''toHour'', execute_UInt16 = (\<lambda>d tz. 0 :: nat),
              execute_UInt32 = (\<lambda>t tz. (unat t div 3600) mod 24),
              FactorTransform = Factor (\<lambda>d tz. unat d) (\<lambda>t tz. unat t div 86400)\<rparr>
    in unat (65541 :: 64 word) mod 2 ^ 16 = unat (5 :: 64 word) mod 2 ^ 16
     \<and> getMonotonicityForRange T \<lparr>default_impl = ''UTC''\<rparr> Date
           (UInt64_Field 65541) (UInt64_Field 5)
         = getMonotonicityForRange T \<lparr>default_impl = ''UTC''\<rparr> Date
           (UInt64_Field 5) (UInt64_Field 5)
     \<and> is_monotonic (getMonotonicityForRange T \<lparr>default_impl = ''UTC''\<rparr> Date
           (UInt64_Field 65541) (UInt64_Field 5))
     \<and> unat (4294967296 :: 64 word) mod 2 ^ 32 = unat (0 :: 64 word) mod 2 ^ 32
     \<and> getMonotonicityForRange T \<lparr>default_impl = ''UTC''\<rparr> (DateTime [])
           (UInt64_Field 4294967296) (UInt64_Field 86399)
         = getMonotonicityForRange T \<lparr>default_impl = ''UTC''\<rparr> (DateTime [])
           (UInt64_Field 0) (UInt64_Field 86399)
     \<and> is_monotonic (getMonotonicityForRange T \<lparr>default_impl = ''UTC''\<rparr> (DateTime [])
           (UInt64_Field 4294967296) (UInt64_Field 86399)))"
proof -
  let ?T = "\<lparr>name = ''toHour'', execute_UInt16 = (\<lambda>d tz. 0 :: nat),
              execute_UInt32 = (\<lambda>t tz. (unat t div 3600) mod 24),
              FactorTransform = Factor (\<lambda>d tz. unat d) (\<lambda>t tz. unat t div 86400)\<rparr>"
  let ?lut = "\<lparr>default_impl = ''UTC''\<rparr>"
  have h: "FactorTransform ?T = Factor (\<lambda>d tz. unat d) (\<lambda>t tz. unat t div 86400)"
    by simp
  have m16: "unat (65541 :: 64 word) mod 2 ^ 16 = unat (5 :: 64 word) mod 2 ^ 16"
    by simp
  have m32: "unat (4294967296 :: 64 word) mod 2 ^ 32 = unat (0 :: 64 word) mod 2 ^ 32"
    by simp
  have a: "getMonotonicityForRange ?T ?lut Date (UInt64_Field 65541) (UInt64_Field 5)
         = getMonotonicityForRange ?T ?lut Date (UInt64_Field 5) (UInt64_Field 5)"
    using getMonotonicityForRange_truncates_boundaries [of ?T "\<lambda>d tz. unat d" "\<lambda>t tz. unat t div 86400" Date ?lut 65541 5 5 5,
                 THEN conjunct2, THEN conjunct2, THEN conjunct1] m16
    by simp
  have b: "is_monotonic (getMonotonicityForRange ?T ?lut Date
             (UInt64_Field 65541) (UInt64_Field 5))"
    using getMonotonicityForRange_truncates_boundaries [of ?T "\<lambda>d tz. unat d" "\<lambda>t tz. unat t div 86400" Date ?lut 65541 5 5 5,
                 THEN conjunct1] h
    by (simp add: unsigned_of_nat)
  have c: "getMonotonicityForRange ?T ?lut (DateTime []) (UInt64_Field 4294967296) (UInt64_Field 86399)
         = getMonotonicityForRange ?T ?lut (DateTime []) (UInt64_Field 0) (UInt64_Field 86399)"
    using getMonotonicityForRange_truncates_boundaries [of ?T "\<lambda>d tz. unat d" "\<lambda>t tz. unat t div 86400" "DateTime []" ?lut
                 4294967296 86399 0 86399, THEN conjunct2, THEN conjunct2, THEN conjunct2] m32
    by simp
  have d: "is_monotonic (getMonotonicityForRange ?T ?lut (DateTime [])
             (UInt64_Field 4294967296) (UInt64_Field 86399))"
    using getMonotonicityForRange_truncates_boundaries [of ?T "\<lambda>d tz. unat d" "\<lambda>t tz. unat t div 86400" "DateTime []" ?lut
                 4294967296 86399 0 86399, THEN conjunct2, THEN conjunct1] h
    by (simp add: unsigned_of_nat)
  from m16 a b m32 c d show ?thesis by (simp only: Let_def)
qed




section \<open>Type resolution\<close>

lemma DateTimeTransformImpl_execute_no_exception:
  "DateTimeTransformImpl_execute checkAndGetColumn block arguments result input_rows_count
     transform_execute \<noteq> Some (Inl e)"
  by (simp add: DateTimeTransformImpl_execute_def Let_def split: option.splits)

lemma executeImpl_exception_code:
  "executeImpl T block arguments result input_rows_count = Some (Inl e) \<Longrightarrow>
   code e = ILLEGAL_TYPE_OF_ARGUMENT"
  by (auto simp add: executeImpl_def Let_def DateTimeTransformImpl_execute_no_exception
      split: if_splits)

lemma getReturnTypeImpl_one_argument:
  "length arguments = 1 \<Longrightarrow>
   getReturnTypeImpl D T arguments =
     (if \<not> isDateOrDateTime (type (arguments ! 0))
      then Inl (Exception
             (''Illegal type '' @ IDataType_getName (type (arguments ! 0))
               @ '' of argument of function '' @ getName T
               @ ''. Should be a date or a date with time'')
             ILLEGAL_TYPE_OF_ARGUMENT)
      else Inr (if D = DataTypeDateTime \<or> D = DataTypeDateTime64
                then make_shared D (Some (extractTimeZoneNameFromFunctionArguments arguments 1 0))
                else make_shared D None))"
  by (simp add: getReturnTypeImpl_def Let_def)

lemma getReturnTypeImpl_two_arguments:
  "length arguments = 2 \<Longrightarrow>
   getReturnTypeImpl D T arguments =
     (if \<not> isDateOrDateTime (type (arguments ! 0))
      then Inl (Exception
             (''Illegal type '' @ IDataType_getName (type (arguments ! 0))
               @ '' of argument of function '' @ getName T
               @ ''. Should be a date or a date with time'')
             ILLEGAL_TYPE_OF_ARGUMENT)
      else if \<not> isString (type (arguments ! 1))
      then Inl (Exception
             (''Function '' @ getName T @ '' supports 1 or 2 arguments. The 1st argument ''
               @ ''must be of type Date or DateTime. The 2nd argument (optional) must be ''
               @ ''a constant string with timezone name'')
             ILLEGAL_TYPE_OF_ARGUMENT)
      else if isDate (type (arguments ! 0)) \<and> D = DataTypeDate
      then Inl (Exception
             (''The timezone argument of function '' @ getName T
               @ '' is allowed only when the 1st argument has the type DateTime'')
             ILLEGAL_TYPE_OF_ARGUMENT)
      else Inr (if D = DataTypeDateTime \<or> D = DataTypeDateTime64
                then make_shared D (Some (extractTimeZoneNameFromFunctionArguments arguments 1 0))
                else make_shared D None))"
  by (simp add: getReturnTypeImpl_def Let_def)

lemma getReturnTypeImpl_wrong_count:
  "length arguments \<noteq> 1 \<Longrightarrow> length arguments \<noteq> 2 \<Longrightarrow>
   getReturnTypeImpl D T arguments =
     Inl (Exception
       (''Number of arguments for function '' @ getName T
         @ '' doesn't match: passed '' @ toString (length arguments)
         @ '', should be 1 or 2'')
       NUMBER_OF_ARGUMENTS_DOESNT_MATCH)"
  by (simp add: getReturnTypeImpl_def Let_def)

text \<open>
  C6. With an argument count other than 1 or 2, \<^verbatim>\<open>getReturnTypeImpl\<close> fails with
  \<^verbatim>\<open>NUMBER_OF_ARGUMENTS_DOESNT_MATCH\<close> and a message that names the function, the count
  passed and the counts allowed; it fails with this code in no other case. With one argument
  of a date or date-time type it succeeds, and with two it succeeds when argument 1 is a
  \<open>String\<close> and the time zone is allowed for argument 0. \<^verbatim>\<open>executeImpl\<close> never fails
  with this code.
\<close>

theorem getReturnTypeImpl_argument_count:
  "(length arguments \<noteq> 1 \<and> length arguments \<noteq> 2 \<longrightarrow>
      getReturnTypeImpl D T arguments =
        Inl (Exception
          (''Number of arguments for function '' @ getName T
            @ '' doesn't match: passed '' @ toString (length arguments)
            @ '', should be 1 or 2'')
          NUMBER_OF_ARGUMENTS_DOESNT_MATCH))
 \<and> (length arguments = 1 \<and> isDateOrDateTime (type (arguments ! 0)) \<longrightarrow>
      (\<exists>return_type. getReturnTypeImpl D T arguments = Inr return_type))
 \<and> (length arguments = 2 \<and> isDateOrDateTime (type (arguments ! 0))
      \<and> isString (type (arguments ! 1)) \<and> \<not> (isDate (type (arguments ! 0)) \<and> D = DataTypeDate) \<longrightarrow>
      (\<exists>return_type. getReturnTypeImpl D T arguments = Inr return_type))
 \<and> (\<forall>e. getReturnTypeImpl D T arguments = Inl e \<and> code e = NUMBER_OF_ARGUMENTS_DOESNT_MATCH \<longrightarrow>
      length arguments \<noteq> 1 \<and> length arguments \<noteq> 2)
 \<and> (\<forall>e. executeImpl T block positions result input_rows_count = Some (Inl e) \<longrightarrow>
      code e \<noteq> NUMBER_OF_ARGUMENTS_DOESNT_MATCH)"
proof -
  have x: "\<forall>e. executeImpl T block positions result input_rows_count = Some (Inl e) \<longrightarrow>
      code e \<noteq> NUMBER_OF_ARGUMENTS_DOESNT_MATCH"
    by (auto dest: executeImpl_exception_code)
  have "length arguments = 1 \<or> length arguments = 2
        \<or> (length arguments \<noteq> 1 \<and> length arguments \<noteq> 2)"
    by blast
  then have "(length arguments \<noteq> 1 \<and> length arguments \<noteq> 2 \<longrightarrow>
      getReturnTypeImpl D T arguments =
        Inl (Exception
          (''Number of arguments for function '' @ getName T
            @ '' doesn't match: passed '' @ toString (length arguments)
            @ '', should be 1 or 2'')
          NUMBER_OF_ARGUMENTS_DOESNT_MATCH))
 \<and> (length arguments = 1 \<and> isDateOrDateTime (type (arguments ! 0)) \<longrightarrow>
      (\<exists>return_type. getReturnTypeImpl D T arguments = Inr return_type))
 \<and> (length arguments = 2 \<and> isDateOrDateTime (type (arguments ! 0))
      \<and> isString (type (arguments ! 1)) \<and> \<not> (isDate (type (arguments ! 0)) \<and> D = DataTypeDate) \<longrightarrow>
      (\<exists>return_type. getReturnTypeImpl D T arguments = Inr return_type))
 \<and> (\<forall>e. getReturnTypeImpl D T arguments = Inl e \<and> code e = NUMBER_OF_ARGUMENTS_DOESNT_MATCH \<longrightarrow>
      length arguments \<noteq> 1 \<and> length arguments \<noteq> 2)"
    by (elim disjE)
      (auto simp add: getReturnTypeImpl_one_argument getReturnTypeImpl_two_arguments getReturnTypeImpl_wrong_count
        split: if_splits)
  with x show ?thesis by blast
qed

theorem getReturnTypeImpl_argument_count_witness:
  "(let T = \<lparr>name = ''toYear'', execute_UInt16 = (\<lambda>d tz. unat d div 365),
              execute_UInt32 = (\<lambda>t tz. unat t div 31536000),
              FactorTransform = (ZeroTransform :: nat FactorTransform)\<rparr>;
        t = \<lparr>column = Some (ColumnUInt32 [0, 3600] :: nat IColumn), type = DateTime [],
              column_name = ''t''\<rparr>;
        tz = \<lparr>column = Some (ColumnConstString ''UTC'' :: nat IColumn),
              type = String, column_name = ''tz''\<rparr>
    in getReturnTypeImpl DataTypeUInt16 T ([] :: nat ColumnWithTypeAndName list) =
         Inl (Exception
           ''Number of arguments for function toYear doesn't match: passed 0, should be 1 or 2''
           NUMBER_OF_ARGUMENTS_DOESNT_MATCH)
     \<and> getReturnTypeImpl DataTypeUInt16 T [t, tz, tz] =
         Inl (Exception
           ''Number of arguments for function toYear doesn't match: passed 3, should be 1 or 2''
           NUMBER_OF_ARGUMENTS_DOESNT_MATCH)
     \<and> (\<exists>return_type. getReturnTypeImpl DataTypeUInt16 T [t] = Inr return_type)
     \<and> (\<exists>return_type. getReturnTypeImpl DataTypeUInt16 T [t, tz] = Inr return_type)
     \<and> (\<forall>e. executeImpl T [tz, t] [0] 1 2 = Some (Inl e) \<longrightarrow>
            code e \<noteq> NUMBER_OF_ARGUMENTS_DOESNT_MATCH)
     \<and> (\<exists>e. executeImpl T [tz, t] [0] 1 2 = Some (Inl e)))"
proof -
  let ?T = "\<lparr>name = ''toYear'', execute_UInt16 = (\<lambda>d tz. unat d div 365),
              execute_UInt32 = (\<lambda>t tz. unat t div 31536000),
              FactorTransform = (ZeroTransform :: nat FactorTransform)\<rparr>"
  let ?t = "\<lparr>column = Some (ColumnUInt32 [0, 3600] :: nat IColumn), type = DateTime [],
              column_name = ''t''\<rparr>"
  let ?tz = "\<lparr>column = Some (ColumnConstString ''UTC'' :: nat IColumn),
              type = String, column_name = ''tz''\<rparr>"
  have a: "getReturnTypeImpl DataTypeUInt16 ?T ([] :: nat ColumnWithTypeAndName list) =
         Inl (Exception
           ''Number of arguments for function toYear doesn't match: passed 0, should be 1 or 2''
           NUMBER_OF_ARGUMENTS_DOESNT_MATCH)"
    using getReturnTypeImpl_argument_count [of "[] :: nat ColumnWithTypeAndName list" DataTypeUInt16 ?T, THEN conjunct1]
    by (simp add: getName_def digit_def)
  have b: "getReturnTypeImpl DataTypeUInt16 ?T [?t, ?tz, ?tz] =
         Inl (Exception
           ''Number of arguments for function toYear doesn't match: passed 3, should be 1 or 2''
           NUMBER_OF_ARGUMENTS_DOESNT_MATCH)"
    using getReturnTypeImpl_argument_count [of "[?t, ?tz, ?tz]" DataTypeUInt16 ?T, THEN conjunct1]
    by (simp add: getName_def digit_def)
  have c: "\<exists>return_type. getReturnTypeImpl DataTypeUInt16 ?T [?t] = Inr return_type"
    using getReturnTypeImpl_argument_count [of "[?t]" DataTypeUInt16 ?T, THEN conjunct2, THEN conjunct1]
    by (simp add: isDateOrDateTime_def)
  have d: "\<exists>return_type. getReturnTypeImpl DataTypeUInt16 ?T [?t, ?tz] = Inr return_type"
    using getReturnTypeImpl_argument_count [of "[?t, ?tz]" DataTypeUInt16 ?T, THEN conjunct2, THEN conjunct2, THEN conjunct1]
    by (simp add: isDateOrDateTime_def)
  have e: "\<forall>e. executeImpl ?T [?tz, ?t] [0] 1 2 = Some (Inl e) \<longrightarrow>
            code e \<noteq> NUMBER_OF_ARGUMENTS_DOESNT_MATCH"
    using getReturnTypeImpl_argument_count [of "[?t]" DataTypeUInt16 ?T "[?tz, ?t]" "[0]" 1 2] by blast
  have f: "\<exists>e. executeImpl ?T [?tz, ?t] [0] 1 2 = Some (Inl e)"
    by (simp add: executeImpl_def positions_in_block_def)
  from a b c d e f show ?thesis by (simp only: Let_def)
qed

text \<open>
  C5, as the specification states it, fails: \<^verbatim>\<open>getReturnTypeImpl\<close> looks at the type of
  argument 1 only. A \<open>String\<close> column that is not constant, after a \<open>DateTime\<close>, is accepted
  by a function with a numeric result.
\<close>

theorem getReturnTypeImpl_non_constant_string_counterexample:
  "getReturnTypeImpl DataTypeUInt8
     \<lparr>name = ''toHour'', execute_UInt16 = (\<lambda>d tz. 0 :: nat),
      execute_UInt32 = (\<lambda>t tz. (unat t div 3600) mod 24),
      FactorTransform = Factor (\<lambda>d tz. unat d) (\<lambda>t tz. unat t div 86400)\<rparr>
     [\<lparr>column = Some (ColumnUInt32 [0, 3600] :: nat IColumn), type = DateTime [],
        column_name = ''t''\<rparr>,
      \<lparr>column = Some (ColumnString [''UTC'', ''Asia/Tokyo'']), type = String,
        column_name = ''tz''\<rparr>]
   = Inr (make_shared DataTypeUInt8 None)"
  by (simp add: getReturnTypeImpl_def isDateOrDateTime_def)

text \<open>
  C5, amended. In a call with two arguments, an argument 1 whose type is not \<open>String\<close>
  makes \<^verbatim>\<open>getReturnTypeImpl\<close> fail with \<^verbatim>\<open>ILLEGAL_TYPE_OF_ARGUMENT\<close>. Whether a
  \<open>String\<close> argument 1 is a constant column is not checked by \<^verbatim>\<open>getReturnTypeImpl\<close>: when
  the result type takes no time zone, a date or date-time argument 0 followed by a \<open>String\<close>
  argument 1 is accepted, constant or not, with that result type (unless argument 0 is a
  \<open>Date\<close> and the result type is \<^verbatim>\<open>DataTypeDate\<close>).
\<close>

theorem getReturnTypeImpl_second_argument_type:
  "(length arguments = 2 \<and> \<not> isString (type (arguments ! 1)) \<longrightarrow>
      (\<exists>msg. getReturnTypeImpl D T arguments = Inl (Exception msg ILLEGAL_TYPE_OF_ARGUMENT)))
 \<and> (length arguments = 2 \<and> isDateOrDateTime (type (arguments ! 0))
      \<and> isString (type (arguments ! 1)) \<and> \<not> (isDate (type (arguments ! 0)) \<and> D = DataTypeDate)
      \<and> D \<noteq> DataTypeDateTime \<and> D \<noteq> DataTypeDateTime64 \<longrightarrow>
      getReturnTypeImpl D T arguments = Inr (make_shared D None))"
  by (simp add: getReturnTypeImpl_two_arguments)

theorem getReturnTypeImpl_second_argument_type_witness:
  "(let T = \<lparr>name = ''toHour'', execute_UInt16 = (\<lambda>d tz. 0 :: nat),
              execute_UInt32 = (\<lambda>t tz. (unat t div 3600) mod 24),
              FactorTransform = Factor (\<lambda>d tz. unat d) (\<lambda>t tz. unat t div 86400)\<rparr>;
        t = \<lparr>column = Some (ColumnUInt32 [0, 3600] :: nat IColumn), type = DateTime [],
              column_name = ''t''\<rparr>;
        n = \<lparr>column = Some (ColumnUInt32 [3, 4] :: nat IColumn), type = UInt32,
              column_name = ''n''\<rparr>;
        tz = \<lparr>column = Some (ColumnString [''UTC'', ''Asia/Tokyo''] :: nat IColumn),
              type = String, column_name = ''tz''\<rparr>
    in length [t, n] = 2 \<and> \<not> isString (type ([t, n] ! 1))
     \<and> (\<exists>msg. getReturnTypeImpl DataTypeUInt8 T [t, n]
                = Inl (Exception msg ILLEGAL_TYPE_OF_ARGUMENT))
     \<and> length [t, tz] = 2 \<and> isDateOrDateTime (type ([t, tz] ! 0))
     \<and> isString (type ([t, tz] ! 1))
     \<and> \<not> (isDate (type ([t, tz] ! 0)) \<and> DataTypeUInt8 = DataTypeDate)
     \<and> DataTypeUInt8 \<noteq> DataTypeDateTime \<and> DataTypeUInt8 \<noteq> DataTypeDateTime64
     \<and> getReturnTypeImpl DataTypeUInt8 T [t, tz] = Inr (make_shared DataTypeUInt8 None))"
proof -
  let ?T = "\<lparr>name = ''toHour'', execute_UInt16 = (\<lambda>d tz. 0 :: nat),
              execute_UInt32 = (\<lambda>t tz. (unat t div 3600) mod 24),
              FactorTransform = Factor (\<lambda>d tz. unat d) (\<lambda>t tz. unat t div 86400)\<rparr>"
  let ?t = "\<lparr>column = Some (ColumnUInt32 [0, 3600] :: nat IColumn), type = DateTime [],
              column_name = ''t''\<rparr>"
  let ?n = "\<lparr>column = Some (ColumnUInt32 [3, 4] :: nat IColumn), type = UInt32,
              column_name = ''n''\<rparr>"
  let ?tz = "\<lparr>column = Some (ColumnString [''UTC'', ''Asia/Tokyo''] :: nat IColumn),
              type = String, column_name = ''tz''\<rparr>"
  have h1: "length [?t, ?n] = 2 \<and> \<not> isString (type ([?t, ?n] ! 1))"
    by simp
  have h2: "length [?t, ?tz] = 2 \<and> isDateOrDateTime (type ([?t, ?tz] ! 0))
     \<and> isString (type ([?t, ?tz] ! 1))
     \<and> \<not> (isDate (type ([?t, ?tz] ! 0)) \<and> DataTypeUInt8 = DataTypeDate)
     \<and> DataTypeUInt8 \<noteq> DataTypeDateTime \<and> DataTypeUInt8 \<noteq> DataTypeDateTime64"
    by (simp add: isDateOrDateTime_def)
  note a = getReturnTypeImpl_second_argument_type
             [of "[?t, ?n]" DataTypeUInt8 ?T, THEN conjunct1, rule_format, OF h1]
  note b = getReturnTypeImpl_second_argument_type
             [of "[?t, ?tz]" DataTypeUInt8 ?T, THEN conjunct2, rule_format, OF h2]
  from h1 h2 a b show ?thesis by (simp only: Let_def) blast
qed

text \<open>
  C4, as the specification states it, fails: the result type \<^verbatim>\<open>DataTypeUInt16\<close> has no time
  zone, yet a \<open>Date\<close> followed by a constant time zone string is accepted.
\<close>

theorem getReturnTypeImpl_Date_with_time_zone_counterexample:
  "getReturnTypeImpl DataTypeUInt16
     \<lparr>name = ''toYear'', execute_UInt16 = (\<lambda>d tz. unat d div 365),
      execute_UInt32 = (\<lambda>t tz. unat t div 31536000),
      FactorTransform = (ZeroTransform :: nat FactorTransform)\<rparr>
     [\<lparr>column = Some (ColumnUInt16 [18627] :: nat IColumn), type = Date, column_name = ''d''\<rparr>,
      \<lparr>column = Some (ColumnConstString ''UTC''), type = String, column_name = ''tz''\<rparr>]
   = Inr (make_shared DataTypeUInt16 None)"
  by (simp add: getReturnTypeImpl_def isDateOrDateTime_def)

text \<open>
  C4, amended. In a call with two arguments whose argument 0 is a \<open>Date\<close> and whose
  argument 1 is a \<open>String\<close>, the time zone argument is rejected with
  \<^verbatim>\<open>ILLEGAL_TYPE_OF_ARGUMENT\<close> when the result type of the function is \<^verbatim>\<open>DataTypeDate\<close>;
  when the result type is any other type that takes no time zone, the call is accepted with
  that result type.
\<close>

theorem getReturnTypeImpl_Date_with_time_zone:
  assumes "length arguments = 2" and "isDate (type (arguments ! 0))"
    and "isString (type (arguments ! 1))"
  shows "(D = DataTypeDate \<longrightarrow>
           getReturnTypeImpl D T arguments =
             Inl (Exception
               (''The timezone argument of function '' @ getName T
                 @ '' is allowed only when the 1st argument has the type DateTime'')
               ILLEGAL_TYPE_OF_ARGUMENT))
       \<and> (D \<noteq> DataTypeDate \<and> D \<noteq> DataTypeDateTime \<and> D \<noteq> DataTypeDateTime64 \<longrightarrow>
           getReturnTypeImpl D T arguments = Inr (make_shared D None))"
  using assms by (simp add: getReturnTypeImpl_two_arguments isDateOrDateTime_def)

theorem getReturnTypeImpl_Date_with_time_zone_witness:
  "(let T = \<lparr>name = ''toMonday'', execute_UInt16 = (\<lambda>d tz. unat d div 7),
              execute_UInt32 = (\<lambda>t tz. unat t div 604800),
              FactorTransform = (ZeroTransform :: nat FactorTransform)\<rparr>;
        arguments = [\<lparr>column = Some (ColumnUInt16 [18627] :: nat IColumn), type = Date,
                       column_name = ''d''\<rparr>,
                     \<lparr>column = Some (ColumnConstString ''UTC''), type = String,
                       column_name = ''tz''\<rparr>]
    in length arguments = 2 \<and> isDate (type (arguments ! 0)) \<and> isString (type (arguments ! 1))
     \<and> getReturnTypeImpl DataTypeDate T arguments =
         Inl (Exception (''The timezone argument of function toMonday''
                @ '' is allowed only when the 1st argument has the type DateTime'')
              ILLEGAL_TYPE_OF_ARGUMENT)
     \<and> DataTypeUInt32 \<noteq> DataTypeDate \<and> DataTypeUInt32 \<noteq> DataTypeDateTime
     \<and> DataTypeUInt32 \<noteq> DataTypeDateTime64
     \<and> getReturnTypeImpl DataTypeUInt32 T arguments = Inr (make_shared DataTypeUInt32 None))"
proof -
  let ?T = "\<lparr>name = ''toMonday'', execute_UInt16 = (\<lambda>d tz. unat d div 7),
              execute_UInt32 = (\<lambda>t tz. unat t div 604800),
              FactorTransform = (ZeroTransform :: nat FactorTransform)\<rparr>"
  let ?arguments = "[\<lparr>column = Some (ColumnUInt16 [18627] :: nat IColumn), type = Date,
                       column_name = ''d''\<rparr>,
                     \<lparr>column = Some (ColumnConstString ''UTC''), type = String,
                       column_name = ''tz''\<rparr>]"
  have h1: "length ?arguments = 2" by simp
  have h2: "isDate (type (?arguments ! 0))" by simp
  have h3: "isString (type (?arguments ! 1))" by simp
  have a: "getReturnTypeImpl DataTypeDate ?T ?arguments =
         Inl (Exception (''The timezone argument of function toMonday''
                @ '' is allowed only when the 1st argument has the type DateTime'')
              ILLEGAL_TYPE_OF_ARGUMENT)"
    using getReturnTypeImpl_Date_with_time_zone [OF h1 h2 h3, of DataTypeDate ?T] by (simp add: getName_def)
  have b: "getReturnTypeImpl DataTypeUInt32 ?T ?arguments = Inr (make_shared DataTypeUInt32 None)"
    using getReturnTypeImpl_Date_with_time_zone [OF h1 h2 h3, of DataTypeUInt32 ?T] by simp
  from h1 h2 h3 a b show ?thesis by (simp only: Let_def) simp
qed

section \<open>Dispatch on the type of the first argument\<close>

text \<open>
  C7. \<^verbatim>\<open>executeImpl\<close> looks at the type of argument 0 and takes exactly one route. For a
  \<open>Date\<close> the \<^verbatim>\<open>UInt16\<close> overload of the transform is applied to each day number; for a
  \<open>DateTime\<close> the \<^verbatim>\<open>UInt32\<close> overload is applied to each second count; for a
  \<open>DateTime64\<close> the transform is wrapped in a \<^verbatim>\<open>WithDateTime64Converter\<close> built with the
  scale of the type and the adapter is applied to each tick count; each time with the time
  zone of the batch, and the values become the result column. For any other type it fails
  with \<^verbatim>\<open>ILLEGAL_TYPE_OF_ARGUMENT\<close> and a message naming the type and the function.
\<close>

theorem executeImpl_dispatch:
  assumes "positions_in_block block arguments result"
  shows "(\<forall>vec_from. type (block ! (arguments ! 0)) = Date
            \<and> column (block ! (arguments ! 0)) = Some (ColumnUInt16 vec_from) \<longrightarrow>
          executeImpl T block arguments result input_rows_count =
            Some (Inr (block[result := (block ! result)\<lparr>column := Some (ColumnTo
              (map (\<lambda>d. execute_UInt16 T d
                     (extractTimeZoneFromFunctionArguments block arguments 1 0)) vec_from))\<rparr>])))
       \<and> (\<forall>vec_from tz. type (block ! (arguments ! 0)) = DateTime tz
            \<and> column (block ! (arguments ! 0)) = Some (ColumnUInt32 vec_from) \<longrightarrow>
          executeImpl T block arguments result input_rows_count =
            Some (Inr (block[result := (block ! result)\<lparr>column := Some (ColumnTo
              (map (\<lambda>t. execute_UInt32 T t
                     (extractTimeZoneFromFunctionArguments block arguments 1 0)) vec_from))\<rparr>])))
       \<and> (\<forall>vec_from s tz. type (block ! (arguments ! 0)) = DateTime64 s tz
            \<and> column (block ! (arguments ! 0)) = Some (ColumnDateTime64 vec_from) \<longrightarrow>
          executeImpl T block arguments result input_rows_count =
            Some (Inr (block[result := (block ! result)\<lparr>column := Some (ColumnTo
              (map (\<lambda>t. WithDateTime64Converter_execute \<lparr>scale = ucast s, transform = T\<rparr> t
                     (extractTimeZoneFromFunctionArguments block arguments 1 0)) vec_from))\<rparr>])))
       \<and> (\<not> isDate (type (block ! (arguments ! 0)))
            \<and> \<not> isDateTime (type (block ! (arguments ! 0)))
            \<and> \<not> isDateTime64 (type (block ! (arguments ! 0))) \<longrightarrow>
          executeImpl T block arguments result input_rows_count =
            Some (Inl (Exception
              (''Illegal type '' @ IDataType_getName (type (block ! (arguments ! 0)))
                @ '' of argument of function '' @ getName T)
              ILLEGAL_TYPE_OF_ARGUMENT)))"
  using assms
  by (simp add: executeImpl_def DateTimeTransformImpl_execute_def Transformer_vector_def Let_def)

theorem executeImpl_dispatch_witness:
  "(let T = \<lparr>name = ''toRelativeDayNum'', execute_UInt16 = (\<lambda>d tz. unat d),
              execute_UInt32 = (\<lambda>t tz.
                (unat t + (if tz = ''Asia/Tokyo'' then 32400 else 0)) div 86400),
              FactorTransform = (ZeroTransform :: nat FactorTransform)\<rparr>;
        to = \<lparr>column = None, type = UInt16, column_name = ''days''\<rparr>;
        d = \<lparr>column = Some (ColumnUInt16 [18627, 18628]), type = Date, column_name = ''d''\<rparr>;
        t = \<lparr>column = Some (ColumnUInt32 [1609459199, 1609459200]),
              type = DateTime ''Asia/Tokyo'', column_name = ''t''\<rparr>;
        t64 = \<lparr>column = Some (ColumnDateTime64 [1609459199000, 1609459200000]),
                type = DateTime64 3 ''UTC'', column_name = ''t64''\<rparr>;
        s = \<lparr>column = Some (ColumnString [''a'', ''b'']), type = String, column_name = ''s''\<rparr>
    in positions_in_block [d, to] [0] 1
     \<and> executeImpl T [d, to] [0] 1 2
         = Some (Inr [d, to\<lparr>column := Some (ColumnTo [18627, 18628])\<rparr>])
     \<and> executeImpl T [t, to] [0] 1 2
         = Some (Inr [t, to\<lparr>column := Some (ColumnTo [18628, 18628])\<rparr>])
     \<and> executeImpl T [t64, to] [0] 1 2
         = Some (Inr [t64, to\<lparr>column := Some (ColumnTo [18627, 18628])\<rparr>])
     \<and> executeImpl T [s, to] [0] 1 2
         = Some (Inl (Exception ''Illegal type String of argument of function toRelativeDayNum''
                        ILLEGAL_TYPE_OF_ARGUMENT)))"
proof -
  let ?T = "\<lparr>name = ''toRelativeDayNum'', execute_UInt16 = (\<lambda>d tz. unat d),
              execute_UInt32 = (\<lambda>t tz.
                (unat t + (if tz = ''Asia/Tokyo'' then 32400 else 0)) div 86400),
              FactorTransform = (ZeroTransform :: nat FactorTransform)\<rparr>"
  let ?to = "\<lparr>column = None :: nat IColumn option, type = UInt16, column_name = ''days''\<rparr>"
  let ?d = "\<lparr>column = Some (ColumnUInt16 [18627, 18628] :: nat IColumn), type = Date,
              column_name = ''d''\<rparr>"
  let ?t = "\<lparr>column = Some (ColumnUInt32 [1609459199, 1609459200] :: nat IColumn),
              type = DateTime ''Asia/Tokyo'', column_name = ''t''\<rparr>"
  let ?t64 = "\<lparr>column = Some (ColumnDateTime64 [1609459199000, 1609459200000] :: nat IColumn),
                type = DateTime64 3 ''UTC'', column_name = ''t64''\<rparr>"
  let ?s = "\<lparr>column = Some (ColumnString [''a'', ''b''] :: nat IColumn), type = String,
              column_name = ''s''\<rparr>"
  have pd: "positions_in_block [?d, ?to] [0] 1"
    and pt: "positions_in_block [?t, ?to] [0] 1"
    and pt64: "positions_in_block [?t64, ?to] [0] 1"
    and ps: "positions_in_block [?s, ?to] [0] 1"
    by (simp_all add: positions_in_block_def)
  have hd: "type ([?d, ?to] ! ([0] ! 0)) = Date
            \<and> column ([?d, ?to] ! ([0] ! 0)) = Some (ColumnUInt16 [18627, 18628])"
    by simp
  have ht: "type ([?t, ?to] ! ([0] ! 0)) = DateTime ''Asia/Tokyo''
            \<and> column ([?t, ?to] ! ([0] ! 0)) = Some (ColumnUInt32 [1609459199, 1609459200])"
    by simp
  have ht64: "type ([?t64, ?to] ! ([0] ! 0)) = DateTime64 3 ''UTC''
            \<and> column ([?t64, ?to] ! ([0] ! 0))
                = Some (ColumnDateTime64 [1609459199000, 1609459200000])"
    by simp
  have hs: "\<not> isDate (type ([?s, ?to] ! ([0] ! 0)))
            \<and> \<not> isDateTime (type ([?s, ?to] ! ([0] ! 0)))
            \<and> \<not> isDateTime64 (type ([?s, ?to] ! ([0] ! 0)))"
    by simp
  have a: "executeImpl ?T [?d, ?to] [0] 1 2
         = Some (Inr [?d, ?to\<lparr>column := Some (ColumnTo [18627, 18628])\<rparr>])"
    using executeImpl_dispatch [OF pd, of ?T 2, THEN conjunct1, rule_format, OF hd]
    by simp
  have b: "executeImpl ?T [?t, ?to] [0] 1 2
         = Some (Inr [?t, ?to\<lparr>column := Some (ColumnTo [18628, 18628])\<rparr>])"
    using executeImpl_dispatch [OF pt, of ?T 2, THEN conjunct2, THEN conjunct1, rule_format, OF ht]
    by (simp add: extractTimeZoneFromFunctionArguments_def
        extractTimeZoneNameFromFunctionArguments_def)
  have c: "executeImpl ?T [?t64, ?to] [0] 1 2
         = Some (Inr [?t64, ?to\<lparr>column := Some (ColumnTo [18627, 18628])\<rparr>])"
    using executeImpl_dispatch [OF pt64, of ?T 2, THEN conjunct2, THEN conjunct2, THEN conjunct1,
              rule_format, OF ht64]
    by (simp add: WithDateTime64Converter_execute_def getWholePart_def
        extractTimeZoneFromFunctionArguments_def extractTimeZoneNameFromFunctionArguments_def)
  have d: "executeImpl ?T [?s, ?to] [0] 1 2
         = Some (Inl (Exception ''Illegal type String of argument of function toRelativeDayNum''
                        ILLEGAL_TYPE_OF_ARGUMENT))"
    using executeImpl_dispatch [OF ps, of ?T 2, THEN conjunct2, THEN conjunct2, THEN conjunct2, rule_format, OF hs]
    by (simp add: getName_def)
  from pd a b c d show ?thesis by (simp only: Let_def)
qed

end
